theory Spec2Isabelle
  imports Main
begin

section \<open>Attribute-linked tab groups\<close>

text \<open>
  A shallow embedding of the custom tabs script: the registry of tab groups, group
  initialisation, instant activation, the activation state machine with its animated
  two-phase transition, and the public functions \<open>switchTab\<close> and \<open>getActiveTab\<close>.

  The document is a list of element references in document order together with a store
  from references to elements. An element carries its tag name, its attributes, its
  \<open>classList\<close> (an ordered token set) and the listeners attached to it. The script's
  module state is the registry \<open>tabsGroups\<close>; the pending \<open>setTimeout\<close> callbacks and
  the console output are part of the page as well, so that timers and warnings are
  visible to the theorems.

  \<open>classList.add\<close> and \<open>classList.remove\<close> raise on a token that is empty
  (\<open>SyntaxError\<close>) or contains ASCII whitespace (\<open>InvalidCharacterError\<close>), checking
  every token before changing anything; \<open>classList.contains\<close> does not raise. The
  active class of a group is read from an attribute, so these exceptions are branches
  of the model: a procedure returns how it completed together with the page it left.

  The selector \<open>[bw-tabs-group="g"][bw-tabs-trigger]\<close> is modelled as the test it
  denotes for a group name that needs no escaping inside the quoted value: the group
  attribute equals \<open>g\<close> and the trigger attribute is present.
\<close>

subsection \<open>Configuration\<close>

abbreviation DEFAULT_ACTIVE_CLASS :: string where
  "DEFAULT_ACTIVE_CLASS \<equiv> ''is-tab-active''"

abbreviation DEFAULT_ANIMATION_DURATION :: int where
  "DEFAULT_ANIMATION_DURATION \<equiv> 300"

abbreviation ANIM_CLASS_leaving :: string where
  "ANIM_CLASS_leaving \<equiv> ''is-leaving''"

abbreviation ANIM_CLASS_entering :: string where
  "ANIM_CLASS_entering \<equiv> ''is-entering''"

abbreviation ATTR_group :: string where
  "ATTR_group \<equiv> ''bw-tabs-group''"

abbreviation ATTR_trigger :: string where
  "ATTR_trigger \<equiv> ''bw-tabs-trigger''"

abbreviation ATTR_content :: string where
  "ATTR_content \<equiv> ''bw-tabs-content''"

abbreviation ATTR_default :: string where
  "ATTR_default \<equiv> ''bw-tabs-default''"

abbreviation ATTR_activeClass :: string where
  "ATTR_activeClass \<equiv> ''bw-tabs-class''"

abbreviation ATTR_animate :: string where
  "ATTR_animate \<equiv> ''bw-tabs-animate''"

abbreviation ATTR_duration :: string where
  "ATTR_duration \<equiv> ''bw-tabs-duration''"

subsection \<open>Types\<close>

datatype dom_exception = SyntaxError | InvalidCharacterError

datatype completion = Normal | Throw dom_exception

text \<open>
  The two listeners \<open>initTabsGroup\<close> attaches to a trigger: the click handler, which
  closes over the group name, and the keydown handler, which clicks the trigger.
\<close>

datatype listener = ClickActivate string | KeydownClick

record element =
  tagName :: string
  attrs :: "string \<rightharpoonup> string"
  classes :: "string list"
  listeners :: "listener list"

type_synonym ref = nat

text \<open>\<open>duration\<close> is a JavaScript number: \<open>None\<close> stands for \<open>NaN\<close>.\<close>

record TabsGroup =
  name :: string
  triggers :: "ref list"
  panels :: "ref list"
  activeClass :: string
  animate :: bool
  duration :: "int option"
  isAnimating :: bool

text \<open>
  A pending \<open>setTimeout\<close> callback of \<open>animateTransition\<close> with the values it closes
  over: the outer callback (end of the exit phase) and the inner one (the unlock).
\<close>

datatype timer = ExitPhaseEnd TabsGroup ref "ref list" | EnterPhaseEnd TabsGroup

datatype report =
    NoTriggersFound string
  | NoPanelsFound string
  | GroupNotFound string
  | CannotSwitch string

record page =
  doc :: "ref list"
  elems :: "ref \<Rightarrow> element"
  tabsGroups :: "string \<rightharpoonup> TabsGroup"
  timers :: "timer list"
  console :: "report list"

type_synonym proc = "page \<Rightarrow> completion \<times> page"

subsection \<open>Statements and loops\<close>

text \<open>A block of statements: the first one that throws ends the block.\<close>

fun seq :: "proc list \<Rightarrow> proc" where
  "seq [] s = (Normal, s)"
| "seq (p # ps) s =
     (case p s of
        (Normal, s') \<Rightarrow> seq ps s'
      | (Throw x, s') \<Rightarrow> (Throw x, s'))"

definition forEach :: "('a \<Rightarrow> proc) \<Rightarrow> 'a list \<Rightarrow> proc" where
  "forEach f xs = seq (map f xs)"

definition lift :: "(page \<Rightarrow> page) \<Rightarrow> proc" where
  "lift f s = (Normal, f s)"

subsection \<open>The DOM operations the script calls\<close>

definition ascii_whitespace :: "char list" where
  "ascii_whitespace = [CHR 0x09, CHR 0x0A, CHR 0x0C, CHR 0x0D, CHR 0x20]"

definition check_token :: "string \<Rightarrow> completion" where
  "check_token t =
     (if t = [] then Throw SyntaxError
      else if list_ex (\<lambda>c. c \<in> set ascii_whitespace) t then Throw InvalidCharacterError
      else Normal)"

fun check_tokens :: "string list \<Rightarrow> completion" where
  "check_tokens [] = Normal"
| "check_tokens (t # ts) =
     (case check_token t of
        Normal \<Rightarrow> check_tokens ts
      | Throw x \<Rightarrow> Throw x)"

definition token_add :: "string \<Rightarrow> string list \<Rightarrow> string list" where
  "token_add t cs = (if t \<in> set cs then cs else cs @ [t])"

definition el_add :: "string list \<Rightarrow> element \<Rightarrow> element" where
  "el_add ts e = e\<lparr>classes := fold token_add ts (classes e)\<rparr>"

definition el_remove :: "string list \<Rightarrow> element \<Rightarrow> element" where
  "el_remove ts e = e\<lparr>classes := filter (\<lambda>c. c \<notin> set ts) (classes e)\<rparr>"

definition el_setAttribute :: "string \<Rightarrow> string \<Rightarrow> element \<Rightarrow> element" where
  "el_setAttribute k v e = e\<lparr>attrs := (attrs e)(k \<mapsto> v)\<rparr>"

definition el_addEventListener :: "listener \<Rightarrow> element \<Rightarrow> element" where
  "el_addEventListener l e = e\<lparr>listeners := listeners e @ [l]\<rparr>"

definition modify :: "ref \<Rightarrow> (element \<Rightarrow> element) \<Rightarrow> page \<Rightarrow> page" where
  "modify r f s = s\<lparr>elems := (elems s)(r := f (elems s r))\<rparr>"

definition getAttribute :: "page \<Rightarrow> ref \<Rightarrow> string \<Rightarrow> string option" where
  "getAttribute s r k = attrs (elems s r) k"

definition hasAttribute :: "page \<Rightarrow> ref \<Rightarrow> string \<Rightarrow> bool" where
  "hasAttribute s r k = (attrs (elems s r) k \<noteq> None)"

definition setAttribute :: "ref \<Rightarrow> string \<Rightarrow> string \<Rightarrow> proc" where
  "setAttribute r k v = lift (modify r (el_setAttribute k v))"

definition addEventListener :: "ref \<Rightarrow> listener \<Rightarrow> proc" where
  "addEventListener r l = lift (modify r (el_addEventListener l))"

text \<open>
  A token set holds no empty string and no string with ASCII whitespace, so
  \<open>classList.contains\<close> answers false for such a string (and never raises).
\<close>

definition classList_contains :: "page \<Rightarrow> ref \<Rightarrow> string \<Rightarrow> bool" where
  "classList_contains s r c = (check_token c = Normal \<and> c \<in> set (classes (elems s r)))"

definition classList_add :: "ref \<Rightarrow> string list \<Rightarrow> proc" where
  "classList_add r ts s =
     (case check_tokens ts of
        Normal \<Rightarrow> (Normal, modify r (el_add ts) s)
      | Throw x \<Rightarrow> (Throw x, s))"

definition classList_remove :: "ref \<Rightarrow> string list \<Rightarrow> proc" where
  "classList_remove r ts s =
     (case check_tokens ts of
        Normal \<Rightarrow> (Normal, modify r (el_remove ts) s)
      | Throw x \<Rightarrow> (Throw x, s))"

text \<open>
  \<open>document.querySelectorAll('[bw-tabs-group="g"][a]')\<close>: the elements of the
  document, in document order, whose group attribute is \<open>g\<close> and which carry
  attribute \<open>a\<close>.
\<close>

definition querySelectorAll :: "page \<Rightarrow> string \<Rightarrow> string \<Rightarrow> ref list" where
  "querySelectorAll s groupName a =
     filter (\<lambda>r. getAttribute s r ATTR_group = Some groupName \<and> hasAttribute s r a) (doc s)"

definition warn :: "report \<Rightarrow> page \<Rightarrow> page" where
  "warn m s = s\<lparr>console := console s @ [m]\<rparr>"

definition setTimeout :: "timer \<Rightarrow> page \<Rightarrow> page" where
  "setTimeout tm s = s\<lparr>timers := timers s @ [tm]\<rparr>"

text \<open>
  A \<open>TabsGroup\<close> object is reached through the registry under its own name
  (\<open>initTabsGroup\<close> stores every group under the name it gives it), so the assignment
  \<open>group.isAnimating = b\<close> updates that entry.
\<close>

definition set_isAnimating :: "string \<Rightarrow> bool \<Rightarrow> page \<Rightarrow> page" where
  "set_isAnimating g b s =
     (case tabsGroups s g of
        None \<Rightarrow> s
      | Some grp \<Rightarrow> s\<lparr>tabsGroups := (tabsGroups s)(g \<mapsto> grp\<lparr>isAnimating := b\<rparr>)\<rparr>)"

text \<open>A JavaScript string is truthy when it is present and not empty.\<close>

definition truthy :: "string option \<Rightarrow> bool" where
  "truthy v = (case v of None \<Rightarrow> False | Some x \<Rightarrow> x \<noteq> [])"

subsection \<open>\<open>parseInt(s, 10)\<close>\<close>

text \<open>
  Leading white space is skipped, one sign is read, then the longest run of decimal
  digits; no digit gives \<open>NaN\<close>. The result stands for the number nearest to the
  integer read.
\<close>

definition str_whitespace :: "char list" where
  "str_whitespace = [CHR 0x09, CHR 0x0A, CHR 0x0B, CHR 0x0C, CHR 0x0D, CHR 0x20, CHR 0xA0]"

definition is_digit :: "char \<Rightarrow> bool" where
  "is_digit c = (48 \<le> (of_char c :: nat) \<and> (of_char c :: nat) \<le> 57)"

definition digits_value :: "string \<Rightarrow> nat" where
  "digits_value z = fold (\<lambda>c n. 10 * n + ((of_char c :: nat) - 48)) z 0"

definition parseInt :: "string \<Rightarrow> int option" where
  "parseInt str =
     (let s = dropWhile (\<lambda>c. c \<in> set str_whitespace) str;
          sign = (if take 1 s = ''-'' then - 1 else 1 :: int);
          s' = (if take 1 s = ''-'' \<or> take 1 s = ''+'' then drop 1 s else s);
          z = takeWhile is_digit s'
      in if z = [] then None else Some (sign * int (digits_value z)))"

subsection \<open>Core functions\<close>

text \<open>\<open>activateTabInstant(group, tabId)\<close>\<close>

definition activateTabInstant :: "TabsGroup \<Rightarrow> string \<Rightarrow> proc" where
  "activateTabInstant grp tabId =
     seq [
       forEach (\<lambda>trigger. seq [
           classList_remove trigger [activeClass grp],
           setAttribute trigger ''aria-selected'' ''false''])
         (triggers grp),
       forEach (\<lambda>panel. seq [
           classList_remove panel [activeClass grp, ANIM_CLASS_leaving, ANIM_CLASS_entering],
           setAttribute panel ''aria-hidden'' ''true''])
         (panels grp),
       (\<lambda>s. forEach (\<lambda>trigger. seq [
           classList_add trigger [activeClass grp],
           setAttribute trigger ''aria-selected'' ''true''])
         (filter (\<lambda>t. getAttribute s t ATTR_trigger = Some tabId) (triggers grp)) s),
       (\<lambda>s. forEach (\<lambda>panel. seq [
           classList_add panel [activeClass grp],
           setAttribute panel ''aria-hidden'' ''false''])
         (filter (\<lambda>p. getAttribute s p ATTR_content = Some tabId) (panels grp)) s)]"

text \<open>\<open>initTabsGroup(groupName)\<close>\<close>

definition initTabsGroup :: "string \<Rightarrow> proc" where
  "initTabsGroup groupName s =
     (let triggers = querySelectorAll s groupName ATTR_trigger;
          panels = querySelectorAll s groupName ATTR_content
      in if triggers = [] then (Normal, warn (NoTriggersFound groupName) s)
         else if panels = [] then (Normal, warn (NoPanelsFound groupName) s)
         else
           let firstTrigger = hd triggers;
               activeClass =
                 (if truthy (getAttribute s firstTrigger ATTR_activeClass)
                  then the (getAttribute s firstTrigger ATTR_activeClass)
                  else DEFAULT_ACTIVE_CLASS);
               animate = hasAttribute s firstTrigger ATTR_animate;
               durationAttr = getAttribute s firstTrigger ATTR_duration;
               duration =
                 (if truthy durationAttr then parseInt (the durationAttr)
                  else Some DEFAULT_ANIMATION_DURATION);
               grp = \<lparr>name = groupName, triggers = triggers, panels = panels,
                        activeClass = activeClass, animate = animate, duration = duration,
                        isAnimating = False\<rparr>
           in seq [
                lift (\<lambda>s. s\<lparr>tabsGroups := (tabsGroups s)(groupName \<mapsto> grp)\<rparr>),
                forEach (\<lambda>trigger. seq [
                    addEventListener trigger (ClickActivate groupName),
                    addEventListener trigger KeydownClick,
                    (\<lambda>s. if \<not> hasAttribute s trigger ''tabindex''
                            \<and> tagName (elems s trigger) \<noteq> ''BUTTON''
                            \<and> tagName (elems s trigger) \<noteq> ''A''
                         then setAttribute trigger ''tabindex'' ''0'' s
                         else (Normal, s)),
                    setAttribute trigger ''role'' ''tab''])
                  triggers,
                forEach (\<lambda>panel. setAttribute panel ''role'' ''tabpanel'') panels,
                (\<lambda>s. let defaultTrigger = find (\<lambda>t. hasAttribute s t ATTR_default) triggers;
                          defaultTabId =
                            (case defaultTrigger of
                               Some t \<Rightarrow> getAttribute s t ATTR_trigger
                             | None \<Rightarrow> getAttribute s (hd triggers) ATTR_trigger)
                      in if truthy defaultTabId
                         then activateTabInstant grp (the defaultTabId) s
                         else (Normal, s))] s)"

text \<open>The outer timer callback of \<open>animateTransition\<close>: the exit phase has ended.\<close>

definition exitPhaseEnd :: "TabsGroup \<Rightarrow> ref \<Rightarrow> ref list \<Rightarrow> proc" where
  "exitPhaseEnd grp currentPanel nextPanels =
     seq [
       classList_remove currentPanel [ANIM_CLASS_leaving],
       setAttribute currentPanel ''aria-hidden'' ''true'',
       forEach (\<lambda>panel.
           if panel \<notin> set nextPanels
           then seq [
             classList_remove panel [activeClass grp, ANIM_CLASS_leaving, ANIM_CLASS_entering],
             setAttribute panel ''aria-hidden'' ''true'']
           else seq [])
         (panels grp),
       forEach (\<lambda>panel. seq [
           classList_add panel [ANIM_CLASS_entering],
           setAttribute panel ''aria-hidden'' ''false''])
         nextPanels,
       forEach (\<lambda>panel. seq [
           classList_add panel [activeClass grp],
           classList_remove panel [ANIM_CLASS_entering]])
         nextPanels,
       lift (setTimeout (EnterPhaseEnd grp))]"

text \<open>The inner timer callback: the unlock.\<close>

definition enterPhaseEnd :: "TabsGroup \<Rightarrow> proc" where
  "enterPhaseEnd grp = lift (set_isAnimating (name grp) False)"

text \<open>\<open>animateTransition(group, currentPanel, nextPanels, tabId)\<close>\<close>

definition animateTransition :: "TabsGroup \<Rightarrow> ref \<Rightarrow> ref list \<Rightarrow> string \<Rightarrow> proc" where
  "animateTransition grp currentPanel nextPanels tabId =
     seq [
       lift (set_isAnimating (name grp) True),
       classList_add currentPanel [ANIM_CLASS_leaving],
       classList_remove currentPanel [activeClass grp],
       lift (setTimeout (ExitPhaseEnd grp currentPanel nextPanels))]"

text \<open>\<open>activateTab(groupName, tabId)\<close>\<close>

definition activateTab :: "string \<Rightarrow> string \<Rightarrow> proc" where
  "activateTab groupName tabId s =
     (case tabsGroups s groupName of
        None \<Rightarrow> (Normal, warn (GroupNotFound groupName) s)
      | Some grp \<Rightarrow>
          if isAnimating grp then (Normal, s)
          else
            let currentPanel =
                  find (\<lambda>p. classList_contains s p (activeClass grp)) (panels grp);
                nextPanels =
                  filter (\<lambda>p. getAttribute s p ATTR_content = Some tabId) (panels grp)
            in if (case currentPanel of
                     Some c \<Rightarrow> c \<in> set nextPanels
                   | None \<Rightarrow> False)
               then (Normal, s)
               else
                 seq [
                   forEach (\<lambda>trigger. seq [
                       classList_remove trigger [activeClass grp],
                       setAttribute trigger ''aria-selected'' ''false''])
                     (triggers grp),
                   (\<lambda>s. forEach (\<lambda>trigger. seq [
                       classList_add trigger [activeClass grp],
                       setAttribute trigger ''aria-selected'' ''true''])
                     (filter (\<lambda>t. getAttribute s t ATTR_trigger = Some tabId)
                        (triggers grp)) s),
                   (case currentPanel of
                      Some c \<Rightarrow>
                        if animate grp
                        then animateTransition grp c nextPanels tabId
                        else seq [
                          forEach (\<lambda>panel. seq [
                              classList_remove panel [activeClass grp],
                              setAttribute panel ''aria-hidden'' ''true''])
                            (panels grp),
                          forEach (\<lambda>panel. seq [
                              classList_add panel [activeClass grp],
                              setAttribute panel ''aria-hidden'' ''false''])
                            nextPanels]
                    | None \<Rightarrow>
                        seq [
                          forEach (\<lambda>panel. seq [
                              classList_remove panel [activeClass grp],
                              setAttribute panel ''aria-hidden'' ''true''])
                            (panels grp),
                          forEach (\<lambda>panel. seq [
                              classList_add panel [activeClass grp],
                              setAttribute panel ''aria-hidden'' ''false''])
                            nextPanels])] s)"

subsection \<open>Public API\<close>

text \<open>\<open>switchTab(groupName, tabId)\<close>\<close>

definition switchTab :: "string \<Rightarrow> string \<Rightarrow> proc" where
  "switchTab groupName tabId s =
     (if tabsGroups s groupName \<noteq> None then activateTab groupName tabId s
      else
        seq [
          initTabsGroup groupName,
          (\<lambda>s. if tabsGroups s groupName \<noteq> None then activateTab groupName tabId s
                else (Normal, warn (CannotSwitch groupName) s))] s)"

text \<open>\<open>getActiveTab(groupName)\<close>; \<open>None\<close> is \<open>null\<close>.\<close>

definition getActiveTab :: "page \<Rightarrow> string \<Rightarrow> string option" where
  "getActiveTab s groupName =
     (case tabsGroups s groupName of
        None \<Rightarrow> None
      | Some grp \<Rightarrow>
          (case find (\<lambda>t. classList_contains s t (activeClass grp)) (triggers grp) of
             None \<Rightarrow> None
           | Some activeTrigger \<Rightarrow>
               if truthy (getAttribute s activeTrigger ATTR_trigger)
               then getAttribute s activeTrigger ATTR_trigger
               else None))"

subsection \<open>Runs of the page\<close>

text \<open>
  What can happen to a page after load. \<open>Scan g\<close> is the call \<open>initTabsGroup(g)\<close>
  that \<open>initAllTabs\<close> makes once for each distinct group name it finds; a group is
  created once, so the event is ignored for a name that is already registered.
  \<open>Activate g t\<close> is a call of \<open>activateTab(g, t)\<close>, as made by the click handler of a
  trigger of \<open>g\<close> whose tab identifier is \<open>t\<close>; \<open>Switch g t\<close> is a call of
  \<open>switchTab(g, t)\<close>; \<open>Fire k\<close> runs the pending timer callback at position \<open>k\<close>.
  Timers of different groups may fire in any order. An exception that leaves a
  handler or a callback is reported by the browser and the page stays as it was left.
\<close>

datatype event = Scan string | Activate string string | Switch string string | Fire nat

fun run_timer :: "timer \<Rightarrow> proc" where
  "run_timer (ExitPhaseEnd grp currentPanel nextPanels) =
     exitPhaseEnd grp currentPanel nextPanels"
| "run_timer (EnterPhaseEnd grp) = enterPhaseEnd grp"

definition fire :: "nat \<Rightarrow> proc" where
  "fire k s =
     (if k < length (timers s)
      then run_timer (timers s ! k) (s\<lparr>timers := take k (timers s) @ drop (Suc k) (timers s)\<rparr>)
      else (Normal, s))"

fun step :: "event \<Rightarrow> page \<Rightarrow> page" where
  "step (Scan g) s = (if tabsGroups s g \<noteq> None then s else snd (initTabsGroup g s))"
| "step (Activate g t) s = snd (activateTab g t s)"
| "step (Switch g t) s = snd (switchTab g t s)"
| "step (Fire k) s = snd (fire k s)"

fun run :: "event list \<Rightarrow> page \<Rightarrow> page" where
  "run [] s = s"
| "run (e # es) s = run es (step e s)"

subsection \<open>Example pages\<close>

text \<open>
  The page of the scenario in the documentation: group \<open>gallery\<close> with triggers
  \<open>photos\<close> (marked default) and \<open>videos\<close> and one panel for each; with
  \<open>anim\<close> the first trigger also carries the animate attribute and a duration of 200.
\<close>

definition plain_element :: element where
  "plain_element = \<lparr>tagName = ''DIV'', attrs = Map.empty, classes = [], listeners = []\<rparr>"

definition gallery :: "bool \<Rightarrow> page" where
  "gallery anim =
     \<lparr>doc = [0, 1, 2, 3],
      elems = (\<lambda>_. plain_element)
        (0 := \<lparr>tagName = ''BUTTON'',
               attrs = (if anim
                 then [ATTR_group \<mapsto> ''gallery'', ATTR_trigger \<mapsto> ''photos'', ATTR_default \<mapsto> '''',
                       ATTR_animate \<mapsto> '''', ATTR_duration \<mapsto> ''200'']
                 else [ATTR_group \<mapsto> ''gallery'', ATTR_trigger \<mapsto> ''photos'', ATTR_default \<mapsto> '''']),
               classes = [], listeners = []\<rparr>,
         1 := \<lparr>tagName = ''BUTTON'',
               attrs = [ATTR_group \<mapsto> ''gallery'', ATTR_trigger \<mapsto> ''videos''],
               classes = [], listeners = []\<rparr>,
         2 := \<lparr>tagName = ''DIV'',
               attrs = [ATTR_group \<mapsto> ''gallery'', ATTR_content \<mapsto> ''photos''],
               classes = [], listeners = []\<rparr>,
         3 := \<lparr>tagName = ''DIV'',
               attrs = [ATTR_group \<mapsto> ''gallery'', ATTR_content \<mapsto> ''videos''],
               classes = [], listeners = []\<rparr>),
      tabsGroups = Map.empty, timers = [], console = []\<rparr>"

text \<open>The gallery after the page scan, and the animated gallery just after a request for \<open>videos\<close>.\<close>

definition gallery_ready :: page where
  "gallery_ready = run [Scan ''gallery''] (gallery False)"

definition gallery_moving :: page where
  "gallery_moving = run [Scan ''gallery'', Activate ''gallery'' ''videos''] (gallery True)"

text \<open>
  A group \<open>menu\<close> whose first trigger has the empty string as its tab identifier; the
  page after its scan, and after a further call \<open>switchTab("menu", "")\<close>.
\<close>

definition untitled :: page where
  "untitled =
     \<lparr>doc = [0, 1, 2],
      elems = (\<lambda>_. plain_element)
        (0 := \<lparr>tagName = ''BUTTON'',
               attrs = [ATTR_group \<mapsto> ''menu'', ATTR_trigger \<mapsto> ''''],
               classes = [], listeners = []\<rparr>,
         1 := \<lparr>tagName = ''BUTTON'',
               attrs = [ATTR_group \<mapsto> ''menu'', ATTR_trigger \<mapsto> ''b''],
               classes = [], listeners = []\<rparr>,
         2 := \<lparr>tagName = ''DIV'',
               attrs = [ATTR_group \<mapsto> ''menu'', ATTR_content \<mapsto> ''b''],
               classes = [], listeners = []\<rparr>),
      tabsGroups = Map.empty, timers = [], console = []\<rparr>"

definition untitled_ready :: page where
  "untitled_ready = run [Scan ''menu''] untitled"

definition untitled_switched :: page where
  "untitled_switched = run [Scan ''menu'', Switch ''menu'' ''''] untitled"




definition gallery_settled :: page where
  "gallery_settled =
     run [Scan ''gallery'', Activate ''gallery'' ''videos'', Fire 0, Fire 0] (gallery True)"

section \<open>Properties\<close>

subsection \<open>Blocks and loops\<close>

lemma seq_lift [simp]: "seq (lift f # ps) s = seq ps (f s)"
  by (simp add: lift_def)

lemma forEach_Nil [simp]: "forEach f [] s = (Normal, s)"
  by (simp add: forEach_def)

lemma forEach_Cons: "forEach f (x # xs) = seq [f x, forEach f xs]"
proof
  fix s
  show "forEach f (x # xs) s = seq [f x, forEach f xs] s"
    by (cases "f x s") (auto simp: forEach_def split: completion.splits prod.splits)
qed

text \<open>A procedure keeps an observation of the page, however it completes.\<close>

definition preserves :: "(page \<Rightarrow> 'a) \<Rightarrow> proc \<Rightarrow> bool" where
  "preserves obs p = (\<forall>s. obs (snd (p s)) = obs s)"


lemma preserves_seq:
  assumes "\<And>p. p \<in> set ps \<Longrightarrow> preserves obs p"
  shows "preserves obs (seq ps)"
  unfolding preserves_def
proof
  fix s
  from assms show "obs (snd (seq ps s)) = obs s"
  proof (induction ps arbitrary: s)
    case Nil
    then show ?case by simp
  next
    case (Cons p ps)
    have p: "obs (snd (p s)) = obs s"
      using Cons.prems by (simp add: preserves_def)
    show ?case
    proof (cases "p s")
      case (Pair c s')
      with p have s': "obs s' = obs s" by simp
      show ?thesis
      proof (cases c)
        case Normal
        with Pair s' Cons.IH [of s'] Cons.prems show ?thesis by simp
      next
        case (Throw x)
        with Pair s' show ?thesis by simp
      qed
    qed
  qed
qed

lemma preserves_forEach:
  assumes "\<And>x. x \<in> set xs \<Longrightarrow> preserves obs (f x)"
  shows "preserves obs (forEach f xs)"
  unfolding forEach_def using assms by (intro preserves_seq) auto

lemma preserves_dep:
  assumes "\<And>s0. preserves obs (p s0)"
  shows "preserves obs (\<lambda>s. p s s)"
  using assms by (simp add: preserves_def)

lemma preserves_if:
  "preserves obs p \<Longrightarrow> preserves obs q \<Longrightarrow> preserves obs (if b then p else q)"
  by simp

lemma preserves_skip: "preserves obs (\<lambda>s. (Normal, s))"
  by (simp add: preserves_def)

lemma preserves_lift: "(\<And>s. obs (f s) = obs s) \<Longrightarrow> preserves obs (lift f)"
  by (simp add: preserves_def lift_def)

subsection \<open>Elements and the store\<close>

lemmas el_defs = el_add_def el_remove_def el_setAttribute_def el_addEventListener_def

lemma modify_fields [simp]:
  "doc (modify r f s) = doc s"
  "tabsGroups (modify r f s) = tabsGroups s"
  "timers (modify r f s) = timers s"
  "console (modify r f s) = console s"
  "elems (modify r f s) x = (if x = r then f (elems s r) else elems s x)"
  by (simp_all add: modify_def)

lemma fold_modify:
  assumes idem: "\<And>x e. h x (h x e) = h x e"
  shows "fold (\<lambda>r. modify r (h r)) rs s =
         s\<lparr>elems := \<lambda>x. if x \<in> set rs then h x (elems s x) else elems s x\<rparr>"
proof (induction rs arbitrary: s)
  case Nil
  show ?case by simp
next
  case (Cons r rs)
  have fn: "(\<lambda>x. if x \<in> set rs then h x (elems (modify r (h r) s) x) else elems (modify r (h r) s) x) =
        (\<lambda>x. if x \<in> set (r # rs) then h x (elems s x) else elems s x)"
    by (auto simp: fun_eq_iff idem)
  have "fold (\<lambda>r. modify r (h r)) (r # rs) s = fold (\<lambda>r. modify r (h r)) rs (modify r (h r) s)"
    by simp
  also have "\<dots> = (modify r (h r) s)\<lparr>elems := \<lambda>x. if x \<in> set rs
      then h x (elems (modify r (h r) s) x) else elems (modify r (h r) s) x\<rparr>"
    by (rule Cons.IH)
  also have "\<dots> = s\<lparr>elems := \<lambda>x. if x \<in> set (r # rs) then h x (elems s x) else elems s x\<rparr>"
    unfolding fn by (simp add: modify_def)
  finally show ?case .
qed

subsection \<open>Token checks\<close>

lemma check_tokens_single [simp]: "check_tokens [c] = check_token c"
  by (cases "check_token c") simp_all

lemma check_token_leaving [simp]: "check_token ANIM_CLASS_leaving = Normal"
  by (simp add: check_token_def ascii_whitespace_def)

lemma check_token_entering [simp]: "check_token ANIM_CLASS_entering = Normal"
  by (simp add: check_token_def ascii_whitespace_def)

lemma check_tokens_active3 [simp]:
  "check_tokens [c, ANIM_CLASS_leaving, ANIM_CLASS_entering] = check_token c"
  by (cases "check_token c") simp_all

lemma classList_remove_valid:
  "check_tokens ts = Normal \<Longrightarrow> classList_remove r ts = lift (modify r (el_remove ts))"
  by (simp add: fun_eq_iff classList_remove_def lift_def)

lemma classList_add_valid:
  "check_tokens ts = Normal \<Longrightarrow> classList_add r ts = lift (modify r (el_add ts))"
  by (simp add: fun_eq_iff classList_add_def lift_def)

lemma classList_remove_throw:
  "check_tokens ts = Throw x \<Longrightarrow> classList_remove r ts s = (Throw x, s)"
  by (simp add: classList_remove_def)

lemma classList_add_throw:
  "check_tokens ts = Throw x \<Longrightarrow> classList_add r ts s = (Throw x, s)"
  by (simp add: classList_add_def)

lemma seq_lift2: "seq [lift f, lift g] = lift (g \<circ> f)"
  by (simp add: fun_eq_iff) (simp add: lift_def)

lemma modify_comp: "modify r f \<circ> modify r g = modify r (f \<circ> g)"
  by (simp add: fun_eq_iff modify_def)

lemma forEach_lift: "forEach (\<lambda>x. lift (f x)) xs = lift (fold f xs)"
proof
  fix s
  show "forEach (\<lambda>x. lift (f x)) xs s = lift (fold f xs) s"
    by (induction xs arbitrary: s) (simp_all add: forEach_Cons, simp_all add: lift_def)
qed

text \<open>The loop bodies of the script, for tokens that pass the check.\<close>

lemma body_remove_set:
  "check_tokens ts = Normal \<Longrightarrow>
   seq [classList_remove r ts, setAttribute r k v] =
   lift (modify r (el_setAttribute k v \<circ> el_remove ts))"
  by (simp add: classList_remove_valid setAttribute_def seq_lift2 modify_comp)

lemma body_add_set:
  "check_tokens ts = Normal \<Longrightarrow>
   seq [classList_add r ts, setAttribute r k v] =
   lift (modify r (el_setAttribute k v \<circ> el_add ts))"
  by (simp add: classList_add_valid setAttribute_def seq_lift2 modify_comp)


lemma forEach_throw_first:
  assumes "\<And>r s. f r s = (Throw x, s)"
  shows "forEach f rs s = (if rs = [] then (Normal, s) else (Throw x, s))"
  by (cases rs) (simp_all add: forEach_Cons assms)

lemma body_remove_throw:
  "check_tokens ts = Throw x \<Longrightarrow> seq [classList_remove r ts, p] s = (Throw x, s)"
  by (simp add: classList_remove_throw)

lemma body_add_throw:
  "check_tokens ts = Throw x \<Longrightarrow> seq [classList_add r ts, p] s = (Throw x, s)"
  by (simp add: classList_add_throw)

subsection \<open>Instant activation as a change of each element\<close>

definition instant_el :: "TabsGroup \<Rightarrow> string \<Rightarrow> ref \<Rightarrow> element \<Rightarrow> element" where
  "instant_el grp t x e =
     (let c = activeClass grp;
          e1 = (if x \<in> set (triggers grp)
                then el_setAttribute ''aria-selected'' ''false'' (el_remove [c] e) else e);
          e2 = (if x \<in> set (panels grp)
                then el_setAttribute ''aria-hidden'' ''true''
                       (el_remove [c, ANIM_CLASS_leaving, ANIM_CLASS_entering] e1)
                else e1);
          e3 = (if x \<in> set (triggers grp) \<and> attrs e ATTR_trigger = Some t
                then el_setAttribute ''aria-selected'' ''true'' (el_add [c] e2) else e2)
      in if x \<in> set (panels grp) \<and> attrs e ATTR_content = Some t
         then el_setAttribute ''aria-hidden'' ''false'' (el_add [c] e3) else e3)"

lemma token_add_idem [simp]: "token_add c (token_add c cs) = token_add c cs"
  by (simp add: token_add_def)

lemma activateTabInstant_valid:
  assumes ok: "check_token (activeClass grp) = Normal"
  shows "activateTabInstant grp t s =
         (Normal, s\<lparr>elems := \<lambda>x. instant_el grp t x (elems s x)\<rparr>)"
proof -
  let ?c = "activeClass grp"
  let ?d1 = "el_setAttribute ''aria-selected'' ''false'' \<circ> el_remove [?c]"
  let ?d2 = "el_setAttribute ''aria-hidden'' ''true'' \<circ>
             el_remove [?c, ANIM_CLASS_leaving, ANIM_CLASS_entering]"
  let ?a1 = "el_setAttribute ''aria-selected'' ''true'' \<circ> el_add [?c]"
  let ?a2 = "el_setAttribute ''aria-hidden'' ''false'' \<circ> el_add [?c]"
  have i1: "\<And>e. ?d1 (?d1 e) = ?d1 e" by (simp add: el_defs)
  have i2: "\<And>e. ?d2 (?d2 e) = ?d2 e" by (simp add: el_defs)
  have i3: "\<And>e. ?a1 (?a1 e) = ?a1 e" by (simp add: el_defs)
  have i4: "\<And>e. ?a2 (?a2 e) = ?a2 e" by (simp add: el_defs)
  have l1: "\<And>rs s. forEach (\<lambda>trigger. seq [classList_remove trigger [?c],
              setAttribute trigger ''aria-selected'' ''false'']) rs s =
            (Normal, s\<lparr>elems := \<lambda>x. if x \<in> set rs then ?d1 (elems s x) else elems s x\<rparr>)"
    using ok by (simp add: body_remove_set forEach_lift lift_def fold_modify [where h = "\<lambda>_. ?d1", OF i1])
  have l2: "\<And>rs s. forEach (\<lambda>panel. seq [classList_remove panel
                [?c, ANIM_CLASS_leaving, ANIM_CLASS_entering],
              setAttribute panel ''aria-hidden'' ''true'']) rs s =
            (Normal, s\<lparr>elems := \<lambda>x. if x \<in> set rs then ?d2 (elems s x) else elems s x\<rparr>)"
    using ok by (simp add: body_remove_set forEach_lift lift_def fold_modify [where h = "\<lambda>_. ?d2", OF i2])
  have l3: "\<And>rs s. forEach (\<lambda>trigger. seq [classList_add trigger [?c],
              setAttribute trigger ''aria-selected'' ''true'']) rs s =
            (Normal, s\<lparr>elems := \<lambda>x. if x \<in> set rs then ?a1 (elems s x) else elems s x\<rparr>)"
    using ok by (simp add: body_add_set forEach_lift lift_def fold_modify [where h = "\<lambda>_. ?a1", OF i3])
  have l4: "\<And>rs s. forEach (\<lambda>panel. seq [classList_add panel [?c],
              setAttribute panel ''aria-hidden'' ''false'']) rs s =
            (Normal, s\<lparr>elems := \<lambda>x. if x \<in> set rs then ?a2 (elems s x) else elems s x\<rparr>)"
    using ok by (simp add: body_add_set forEach_lift lift_def fold_modify [where h = "\<lambda>_. ?a2", OF i4])
  define s1 where "s1 = s\<lparr>elems := \<lambda>x. if x \<in> set (triggers grp) then ?d1 (elems s x) else elems s x\<rparr>"
  define s2 where "s2 = s1\<lparr>elems := \<lambda>x. if x \<in> set (panels grp) then ?d2 (elems s1 x) else elems s1 x\<rparr>"
  define T where "T = filter (\<lambda>t'. getAttribute s2 t' ATTR_trigger = Some t) (triggers grp)"
  define s3 where "s3 = s2\<lparr>elems := \<lambda>x. if x \<in> set T then ?a1 (elems s2 x) else elems s2 x\<rparr>"
  define P where "P = filter (\<lambda>p. getAttribute s3 p ATTR_content = Some t) (panels grp)"
  define s4 where "s4 = s3\<lparr>elems := \<lambda>x. if x \<in> set P then ?a2 (elems s3 x) else elems s3 x\<rparr>"
  have r1: "forEach (\<lambda>trigger. seq [classList_remove trigger [?c],
              setAttribute trigger ''aria-selected'' ''false'']) (triggers grp) s = (Normal, s1)"
    unfolding s1_def by (rule l1)
  have r2: "forEach (\<lambda>panel. seq [classList_remove panel
                [?c, ANIM_CLASS_leaving, ANIM_CLASS_entering],
              setAttribute panel ''aria-hidden'' ''true'']) (panels grp) s1 = (Normal, s2)"
    unfolding s2_def by (rule l2)
  have r3: "forEach (\<lambda>trigger. seq [classList_add trigger [?c],
              setAttribute trigger ''aria-selected'' ''true''])
            (filter (\<lambda>t'. getAttribute s2 t' ATTR_trigger = Some t) (triggers grp)) s2 = (Normal, s3)"
    unfolding s3_def T_def by (rule l3)
  have r4: "forEach (\<lambda>panel. seq [classList_add panel [?c],
              setAttribute panel ''aria-hidden'' ''false''])
            (filter (\<lambda>p. getAttribute s3 p ATTR_content = Some t) (panels grp)) s3 = (Normal, s4)"
    unfolding s4_def P_def by (rule l4)
  have run: "activateTabInstant grp t s = (Normal, s4)"
    unfolding activateTabInstant_def by (simp add: r1 r2 r3 r4)
  have T: "x \<in> set T \<longleftrightarrow> x \<in> set (triggers grp) \<and> attrs (elems s x) ATTR_trigger = Some t" for x
    by (auto simp: T_def s2_def s1_def getAttribute_def el_defs)
  have P: "x \<in> set P \<longleftrightarrow> x \<in> set (panels grp) \<and> attrs (elems s x) ATTR_content = Some t" for x
    by (auto simp: P_def s3_def s2_def s1_def getAttribute_def el_defs)
  have "elems s4 x = instant_el grp t x (elems s x)" for x
    by (simp add: s4_def s3_def s2_def s1_def T P instant_el_def Let_def)
  then have "s4 = s\<lparr>elems := \<lambda>x. instant_el grp t x (elems s x)\<rparr>"
    by (simp add: s4_def s3_def s2_def s1_def fun_eq_iff)
  with run show ?thesis by simp
qed

lemma conj3_dup: "(A \<and> B \<and> C \<and> A \<and> B \<and> C) = (A \<and> B \<and> C)"
  by blast

lemma instant_el_idem: "instant_el grp t x (instant_el grp t x e) = instant_el grp t x e"
  by (auto simp: instant_el_def Let_def el_defs token_add_def conj3_dup)


lemma activateTabInstant_invalid:
  assumes bad: "check_token (activeClass grp) = Throw x"
  shows "activateTabInstant grp t s =
         (if triggers grp = [] \<and> panels grp = [] then (Normal, s) else (Throw x, s))"
proof -
  let ?c = "activeClass grp"
  have b1: "\<And>rs s. forEach (\<lambda>trigger. seq [classList_remove trigger [?c],
              setAttribute trigger ''aria-selected'' ''false'']) rs s =
            (if rs = [] then (Normal, s) else (Throw x, s))"
    using bad by (intro forEach_throw_first body_remove_throw) simp
  have b2: "\<And>rs s. forEach (\<lambda>panel. seq [classList_remove panel
                [?c, ANIM_CLASS_leaving, ANIM_CLASS_entering],
              setAttribute panel ''aria-hidden'' ''true'']) rs s =
            (if rs = [] then (Normal, s) else (Throw x, s))"
    using bad by (intro forEach_throw_first body_remove_throw) simp
  show ?thesis
    unfolding activateTabInstant_def by (simp add: b1 b2)
qed

subsection \<open>What a procedure leaves alone\<close>

lemma preserves_seq_Nil: "preserves obs (seq [])"
  by (simp add: preserves_def)

lemma preserves_seq_Cons:
  "preserves obs p \<Longrightarrow> preserves obs (seq ps) \<Longrightarrow> preserves obs (seq (p # ps))"
  by (auto simp: preserves_def split: prod.split completion.split)
     (metis snd_conv)+

lemma preserves_classList_add:
  "(\<And>s. obs (modify r (el_add ts) s) = obs s) \<Longrightarrow> preserves obs (classList_add r ts)"
  by (simp add: preserves_def classList_add_def split: completion.split)

lemma preserves_classList_remove:
  "(\<And>s. obs (modify r (el_remove ts) s) = obs s) \<Longrightarrow> preserves obs (classList_remove r ts)"
  by (simp add: preserves_def classList_remove_def split: completion.split)

lemma preserves_setAttribute:
  "(\<And>s. obs (modify r (el_setAttribute k v) s) = obs s) \<Longrightarrow> preserves obs (setAttribute r k v)"
  by (simp add: preserves_def setAttribute_def lift_def)

lemma preserves_addEventListener:
  "(\<And>s. obs (modify r (el_addEventListener l) s) = obs s) \<Longrightarrow>
   preserves obs (addEventListener r l)"
  by (simp add: preserves_def addEventListener_def lift_def)

lemma preserves_forEach_dep:
  "(\<And>s0. preserves obs (forEach f (g s0))) \<Longrightarrow> preserves obs (\<lambda>s. forEach f (g s) s)"
  by (simp add: preserves_def)

lemmas preserves_intros =
  preserves_seq_Nil preserves_seq_Cons preserves_forEach preserves_forEach_dep
  preserves_classList_add preserves_classList_remove preserves_setAttribute
  preserves_addEventListener preserves_lift

lemma find_first:
  "(\<forall>x\<in>set pre. \<not> P x) \<Longrightarrow> P r \<Longrightarrow> find P (pre @ r # post) = Some r"
  by (induction pre) simp_all

lemma find_none: "(\<forall>x\<in>set xs. \<not> P x) \<Longrightarrow> find P xs = None"
  by (induction xs) simp_all

subsection \<open>What an observation of the page cannot see\<close>

text \<open>
  The script writes four attributes (\<open>aria-selected\<close>, \<open>aria-hidden\<close>, \<open>role\<close>,
  \<open>tabindex\<close>); every other attribute of every element stays as it is.
\<close>

definition static_key :: "string \<Rightarrow> bool" where
  "static_key k = (k \<notin> {''aria-selected'', ''aria-hidden'', ''role'', ''tabindex''})"

definition keeps_static :: "(element \<Rightarrow> element) \<Rightarrow> bool" where
  "keeps_static f = (\<forall>e k. static_key k \<longrightarrow> attrs (f e) k = attrs e k)"

fun tgroup :: "timer \<Rightarrow> TabsGroup" where
  "tgroup (ExitPhaseEnd grp cur nexts) = grp"
| "tgroup (EnterPhaseEnd grp) = grp"

definition tname :: "timer \<Rightarrow> string" where
  "tname tm = name (tgroup tm)"

text \<open>
  An observation is blind to the work done for the groups named in \<open>G\<close> on the
  elements of \<open>R\<close>: it does not change when an element of \<open>R\<close> is changed in a way
  that keeps its static attributes, when the \<open>isAnimating\<close> flag of a group of \<open>G\<close>
  is set, when a timer of a group of \<open>G\<close> is scheduled, or when the console is
  written.
\<close>

definition blind :: "ref set \<Rightarrow> string set \<Rightarrow> (page \<Rightarrow> 'a) \<Rightarrow> bool" where
  "blind R G obs =
     ((\<forall>r f s. r \<in> R \<longrightarrow> keeps_static f \<longrightarrow> obs (modify r f s) = obs s)
      \<and> (\<forall>g b s. g \<in> G \<longrightarrow> obs (set_isAnimating g b s) = obs s)
      \<and> (\<forall>tm s. tname tm \<in> G \<longrightarrow> obs (setTimeout tm s) = obs s)
      \<and> (\<forall>m s. obs (warn m s) = obs s))"

lemma static_key_ATTR [simp]:
  "static_key ATTR_group" "static_key ATTR_trigger" "static_key ATTR_content"
  "static_key ATTR_default" "static_key ATTR_activeClass" "static_key ATTR_animate"
  "static_key ATTR_duration"
  by (simp_all add: static_key_def)

lemma not_static_key [simp]:
  "\<not> static_key ''aria-selected''" "\<not> static_key ''aria-hidden''"
  "\<not> static_key ''role''" "\<not> static_key ''tabindex''"
  by (simp_all add: static_key_def)

lemma keeps_static_ops [simp]:
  "keeps_static (el_add ts)" "keeps_static (el_remove ts)" "keeps_static (el_addEventListener l)"
  "\<not> static_key k \<Longrightarrow> keeps_static (el_setAttribute k v)"
  by (auto simp: keeps_static_def el_defs)

lemma set_isAnimating_fields [simp]:
  "doc (set_isAnimating g b s) = doc s"
  "elems (set_isAnimating g b s) = elems s"
  "timers (set_isAnimating g b s) = timers s"
  "console (set_isAnimating g b s) = console s"
  by (simp_all add: set_isAnimating_def split: option.split)

lemma set_isAnimating_registry:
  "tabsGroups (set_isAnimating g b s) g' =
     (if g' = g then map_option (\<lambda>grp. grp\<lparr>isAnimating := b\<rparr>) (tabsGroups s g)
      else tabsGroups s g')"
  by (simp add: set_isAnimating_def split: option.split)

lemma setTimeout_fields [simp]:
  "doc (setTimeout tm s) = doc s"
  "elems (setTimeout tm s) = elems s"
  "tabsGroups (setTimeout tm s) = tabsGroups s"
  "console (setTimeout tm s) = console s"
  "timers (setTimeout tm s) = timers s @ [tm]"
  by (simp_all add: setTimeout_def)

lemma warn_fields [simp]:
  "doc (warn m s) = doc s"
  "elems (warn m s) = elems s"
  "tabsGroups (warn m s) = tabsGroups s"
  "timers (warn m s) = timers s"
  "console (warn m s) = console s @ [m]"
  by (simp_all add: warn_def)

text \<open>The observations used below.\<close>

lemma blind_doc [simp]: "blind R G doc"
  by (simp add: blind_def)

lemma blind_attr [simp]: "static_key k \<Longrightarrow> blind R G (\<lambda>s. attrs (elems s x) k)"
  by (simp add: blind_def keeps_static_def)

lemma blind_elem [simp]: "x \<notin> R \<Longrightarrow> blind R G (\<lambda>s. elems s x)"
  by (auto simp: blind_def)

lemma blind_registry [simp]: "blind R {} tabsGroups"
  by (simp add: blind_def)


lemma blind_group [simp]: "g \<notin> G \<Longrightarrow> blind R G (\<lambda>s. tabsGroups s g)"
  by (auto simp: blind_def set_isAnimating_registry)

text \<open>A group record without its flag, and the timers of one group.\<close>

definition static_of :: "TabsGroup \<Rightarrow> TabsGroup" where
  "static_of grp = grp\<lparr>isAnimating := False\<rparr>"

definition timers_of :: "page \<Rightarrow> string \<Rightarrow> timer list" where
  "timers_of s g = filter (\<lambda>tm. tname tm = g) (timers s)"

lemma blind_static_of [simp]: "blind R G (\<lambda>s. map_option static_of (tabsGroups s g))"
  unfolding static_of_def [abs_def]
  by (auto simp: blind_def set_isAnimating_registry option.map_comp comp_def)

lemma blind_timers_of [simp]: "g \<notin> G \<Longrightarrow> blind R G (\<lambda>s. timers_of s g)"
  by (auto simp: blind_def timers_of_def)

text \<open>Each statement of the script keeps what is blind to it.\<close>

lemma blind_modify: "blind R G obs \<Longrightarrow> r \<in> R \<Longrightarrow> keeps_static f \<Longrightarrow> obs (modify r f s) = obs s"
  by (simp add: blind_def)

lemma blind_classList_add:
  "blind R G obs \<Longrightarrow> r \<in> R \<Longrightarrow> preserves obs (classList_add r ts)"
  by (intro preserves_classList_add blind_modify) simp_all

lemma blind_classList_remove:
  "blind R G obs \<Longrightarrow> r \<in> R \<Longrightarrow> preserves obs (classList_remove r ts)"
  by (intro preserves_classList_remove blind_modify) simp_all

lemma blind_setAttribute:
  "blind R G obs \<Longrightarrow> r \<in> R \<Longrightarrow> \<not> static_key k \<Longrightarrow> preserves obs (setAttribute r k v)"
  by (intro preserves_setAttribute blind_modify) simp_all

lemma blind_addEventListener:
  "blind R G obs \<Longrightarrow> r \<in> R \<Longrightarrow> preserves obs (addEventListener r l)"
  by (intro preserves_addEventListener blind_modify) simp_all

lemma preserves_tabindex:
  assumes "\<And>s. obs (modify r (el_setAttribute ''tabindex'' ''0'') s) = obs s"
  shows "preserves obs (\<lambda>s. if \<not> hasAttribute s r ''tabindex''
              \<and> tagName (elems s r) \<noteq> ''BUTTON'' \<and> tagName (elems s r) \<noteq> ''A''
           then setAttribute r ''tabindex'' ''0'' s else (Normal, s))"
  using assms by (simp add: preserves_def setAttribute_def lift_def)

lemma blind_tabindex:
  "blind R G obs \<Longrightarrow> r \<in> R \<Longrightarrow>
   preserves obs (\<lambda>s. if \<not> hasAttribute s r ''tabindex''
              \<and> tagName (elems s r) \<noteq> ''BUTTON'' \<and> tagName (elems s r) \<noteq> ''A''
           then setAttribute r ''tabindex'' ''0'' s else (Normal, s))"
  by (intro preserves_tabindex blind_modify) simp_all

lemma blind_set_isAnimating:
  "blind R G obs \<Longrightarrow> g \<in> G \<Longrightarrow> preserves obs (lift (set_isAnimating g b))"
  by (simp add: preserves_def lift_def blind_def)

lemma blind_setTimeout:
  "blind R G obs \<Longrightarrow> tname tm \<in> G \<Longrightarrow> preserves obs (lift (setTimeout tm))"
  by (simp add: preserves_def lift_def blind_def)


lemmas block_intros =
  preserves_seq_Nil preserves_seq_Cons preserves_forEach preserves_forEach_dep preserves_if

lemmas blind_leafs =
  blind_classList_add blind_classList_remove blind_setAttribute
  blind_addEventListener blind_tabindex blind_set_isAnimating blind_setTimeout

lemma activateTabInstant_blind:
  assumes "blind R G obs" and "set (triggers grp) \<union> set (panels grp) \<subseteq> R"
  shows "preserves obs (activateTabInstant grp t)"
  unfolding activateTabInstant_def
  by (intro block_intros blind_leafs [OF assms(1)]) (use assms(2) in auto)




lemma find_Some_set: "find P xs = Some x \<Longrightarrow> x \<in> set xs \<and> P x"
  by (induction xs) (auto split: if_splits)


subsection \<open>The parts of group initialisation\<close>

definition init_config :: "page \<Rightarrow> string \<Rightarrow> TabsGroup" where
  "init_config s g =
     (let ts = querySelectorAll s g ATTR_trigger in
      \<lparr>name = g, triggers = ts, panels = querySelectorAll s g ATTR_content,
       activeClass =
         (if truthy (getAttribute s (hd ts) ATTR_activeClass)
          then the (getAttribute s (hd ts) ATTR_activeClass) else DEFAULT_ACTIVE_CLASS),
       animate = hasAttribute s (hd ts) ATTR_animate,
       duration =
         (if truthy (getAttribute s (hd ts) ATTR_duration)
          then parseInt (the (getAttribute s (hd ts) ATTR_duration))
          else Some DEFAULT_ANIMATION_DURATION),
       isAnimating = False\<rparr>)"

definition wire_triggers :: "string \<Rightarrow> ref list \<Rightarrow> proc" where
  "wire_triggers g ts =
     forEach (\<lambda>trigger. seq [
         addEventListener trigger (ClickActivate g),
         addEventListener trigger KeydownClick,
         (\<lambda>s. if \<not> hasAttribute s trigger ''tabindex''
                 \<and> tagName (elems s trigger) \<noteq> ''BUTTON''
                 \<and> tagName (elems s trigger) \<noteq> ''A''
              then setAttribute trigger ''tabindex'' ''0'' s
              else (Normal, s)),
         setAttribute trigger ''role'' ''tab'']) ts"

definition wire_panels :: "ref list \<Rightarrow> proc" where
  "wire_panels ps = forEach (\<lambda>panel. setAttribute panel ''role'' ''tabpanel'') ps"

definition default_tab :: "page \<Rightarrow> ref list \<Rightarrow> string option" where
  "default_tab s ts =
     (case find (\<lambda>t. hasAttribute s t ATTR_default) ts of
        Some t \<Rightarrow> getAttribute s t ATTR_trigger
      | None \<Rightarrow> getAttribute s (hd ts) ATTR_trigger)"

definition apply_default :: "TabsGroup \<Rightarrow> proc" where
  "apply_default grp s =
     (if truthy (default_tab s (triggers grp))
      then activateTabInstant grp (the (default_tab s (triggers grp))) s
      else (Normal, s))"


lemma initTabsGroup_parts:
  assumes "querySelectorAll s g ATTR_trigger \<noteq> []" and "querySelectorAll s g ATTR_content \<noteq> []"
  shows "initTabsGroup g s =
         seq [wire_triggers g (querySelectorAll s g ATTR_trigger),
              wire_panels (querySelectorAll s g ATTR_content),
              apply_default (init_config s g)]
           (s\<lparr>tabsGroups := (tabsGroups s)(g \<mapsto> init_config s g)\<rparr>)"
  unfolding initTabsGroup_def wire_triggers_def wire_panels_def apply_default_def [abs_def]
    default_tab_def init_config_def Let_def
  using assms by (simp only: if_False seq_lift TabsGroup.select_convs)

lemma wire_triggers_blind:
  assumes "blind R G obs" and "set ts \<subseteq> R"
  shows "preserves obs (wire_triggers g ts)"
  unfolding wire_triggers_def
  by (intro block_intros blind_leafs [OF assms(1)]) (use assms(2) in auto)

lemma wire_panels_blind:
  assumes "blind R G obs" and "set ps \<subseteq> R"
  shows "preserves obs (wire_panels ps)"
  unfolding wire_panels_def
  by (intro block_intros blind_leafs [OF assms(1)]) (use assms(2) in auto)

lemma apply_default_blind:
  assumes "blind R G obs" and "set (triggers grp) \<union> set (panels grp) \<subseteq> R"
  shows "preserves obs (apply_default grp)"
  using activateTabInstant_blind [OF assms]
  by (simp add: preserves_def apply_default_def)

lemma init_config_fields [simp]:
  "name (init_config s g) = g"
  "triggers (init_config s g) = querySelectorAll s g ATTR_trigger"
  "panels (init_config s g) = querySelectorAll s g ATTR_content"
  "isAnimating (init_config s g) = False"
  by (simp_all add: init_config_def Let_def)


lemma initTabsGroup_registry:
  assumes "querySelectorAll s g ATTR_trigger \<noteq> []" and "querySelectorAll s g ATTR_content \<noteq> []"
  shows "tabsGroups (snd (initTabsGroup g s)) = (tabsGroups s)(g \<mapsto> init_config s g)"
proof -
  have "preserves tabsGroups (seq [wire_triggers g (querySelectorAll s g ATTR_trigger),
              wire_panels (querySelectorAll s g ATTR_content),
              apply_default (init_config s g)])"
    by (intro preserves_seq_Cons preserves_seq_Nil wire_triggers_blind [where R = UNIV and G = "{}"]
        wire_panels_blind [where R = UNIV and G = "{}"]
        apply_default_blind [where R = UNIV and G = "{}"]) simp_all
  then show ?thesis
    by (simp add: initTabsGroup_parts [OF assms] preserves_def)
qed



subsection \<open>Procedures that cannot throw\<close>

definition never_throws :: "proc \<Rightarrow> bool" where
  "never_throws p = (\<forall>s. fst (p s) = Normal)"

lemma never_throws_seq_Nil: "never_throws (seq [])"
  by (simp add: never_throws_def)

lemma never_throws_seq_Cons:
  "never_throws p \<Longrightarrow> never_throws (seq ps) \<Longrightarrow> never_throws (seq (p # ps))"
  by (auto simp: never_throws_def split: prod.split completion.split)
     (metis fst_conv completion.distinct(1))

lemma never_throws_forEach:
  "(\<And>x. x \<in> set xs \<Longrightarrow> never_throws (f x)) \<Longrightarrow> never_throws (forEach f xs)"
  by (induction xs) (simp_all add: forEach_Cons never_throws_seq_Cons never_throws_seq_Nil,
      simp add: never_throws_def)

lemma never_throws_lift: "never_throws (lift f)"
  by (simp add: never_throws_def lift_def)

lemma never_throws_setAttribute: "never_throws (setAttribute r k v)"
  by (simp add: setAttribute_def never_throws_lift)

lemma never_throws_addEventListener: "never_throws (addEventListener r l)"
  by (simp add: addEventListener_def never_throws_lift)

lemma never_throws_tabindex:
  "never_throws (\<lambda>s. if \<not> hasAttribute s r ''tabindex''
              \<and> tagName (elems s r) \<noteq> ''BUTTON'' \<and> tagName (elems s r) \<noteq> ''A''
           then setAttribute r ''tabindex'' ''0'' s else (Normal, s))"
  by (simp add: never_throws_def setAttribute_def lift_def)

lemma wire_triggers_normal: "fst (wire_triggers g ts s) = Normal"
proof -
  have "never_throws (wire_triggers g ts)"
    unfolding wire_triggers_def
    by (intro never_throws_forEach never_throws_seq_Cons never_throws_seq_Nil
        never_throws_setAttribute never_throws_addEventListener never_throws_tabindex)
  then show ?thesis by (simp add: never_throws_def)
qed

lemma wire_panels_normal: "fst (wire_panels ps s) = Normal"
proof -
  have "never_throws (wire_panels ps)"
    unfolding wire_panels_def
    by (intro never_throws_forEach never_throws_setAttribute)
  then show ?thesis by (simp add: never_throws_def)
qed




subsection \<open>The loops of the script, for tokens that pass the check\<close>

declare lift_def [simp]

lemma modify_id [simp]: "modify r (\<lambda>e. e) s = s"
  by (simp add: modify_def)





subsection \<open>Activation and the transition as changes of each element\<close>











lemma wire_triggers_static:
  "static_key k \<Longrightarrow> attrs (elems (snd (wire_triggers g ts s)) x) k = attrs (elems s x) k"
  using wire_triggers_blind [where R = UNIV and G = "{}" and obs = "\<lambda>s. attrs (elems s x) k"]
  by (simp add: preserves_def)

lemma wire_panels_static:
  "static_key k \<Longrightarrow> attrs (elems (snd (wire_panels ps s)) x) k = attrs (elems s x) k"
  using wire_panels_blind [where R = UNIV and G = "{}" and obs = "\<lambda>s. attrs (elems s x) k"]
  by (simp add: preserves_def)

lemma default_tab_static:
  assumes "\<And>x k. static_key k \<Longrightarrow> attrs (elems s' x) k = attrs (elems s x) k"
  shows "default_tab s' ts = default_tab s ts"
  using assms by (simp add: default_tab_def hasAttribute_def getAttribute_def split: option.split)

lemma default_tab_trigger:
  assumes "ts \<noteq> []"
  shows "\<exists>r\<in>set ts. getAttribute s r ATTR_trigger = default_tab s ts"
proof (cases "find (\<lambda>t. hasAttribute s t ATTR_default) ts")
  case None
  with assms show ?thesis by (auto simp: default_tab_def intro!: bexI [of _ "hd ts"])
next
  case (Some m)
  with find_Some_set [OF Some] show ?thesis by (auto simp: default_tab_def)
qed

subsection \<open>Evaluating the example pages\<close>

lemmas eval_defs = gallery_def plain_element_def untitled_def
  gallery_ready_def gallery_moving_def untitled_ready_def untitled_switched_def
  querySelectorAll_def getAttribute_def hasAttribute_def
  initTabsGroup_def activateTabInstant_def activateTab_def animateTransition_def
  switchTab_def forEach_def setAttribute_def addEventListener_def
  classList_add_def classList_remove_def
  classList_contains_def modify_def el_add_def el_remove_def el_setAttribute_def
  el_addEventListener_def check_token_def ascii_whitespace_def token_add_def truthy_def
  parseInt_def set_isAnimating_def setTimeout_def warn_def Let_def is_digit_def
  digits_value_def str_whitespace_def

lemma gallery_triggers: "querySelectorAll (gallery a) ''gallery'' ATTR_trigger = [0, 1]"
  by (simp add: gallery_def querySelectorAll_def getAttribute_def hasAttribute_def)

lemma gallery_panels: "querySelectorAll (gallery a) ''gallery'' ATTR_content = [2, 3]"
  by (simp add: gallery_def querySelectorAll_def getAttribute_def hasAttribute_def)

lemma gallery_first_trigger:
  "attrs (elems (gallery True) 0) ATTR_activeClass = None"
  "attrs (elems (gallery True) 0) ATTR_animate = Some []"
  "attrs (elems (gallery True) 0) ATTR_duration = Some ''200''"
  by (simp_all add: gallery_def)

lemma parseInt_200: "parseInt ''200'' = Some 200"
  by (simp add: parseInt_def is_digit_def digits_value_def str_whitespace_def)

lemma gallery_ready_group:
  "tabsGroups gallery_ready ''gallery'' =
   Some \<lparr>name = ''gallery'', triggers = [0, 1], panels = [2, 3], activeClass = ''is-tab-active'',
         animate = False, duration = Some 300, isAnimating = False\<rparr>"
  by (simp add: eval_defs)

lemma gallery_ready_elems:
  "map (\<lambda>r. classes (elems gallery_ready r)) [0, 1, 2, 3] =
   [[''is-tab-active''], [], [''is-tab-active''], []]"
  "map (\<lambda>r. attrs (elems gallery_ready r) ATTR_trigger) [0, 1] = [Some ''photos'', Some ''videos'']"
  "map (\<lambda>r. attrs (elems gallery_ready r) ATTR_content) [2, 3] = [Some ''photos'', Some ''videos'']"
  by (simp_all add: eval_defs)

lemma gallery_moving_group:
  "tabsGroups gallery_moving ''gallery'' =
   Some \<lparr>name = ''gallery'', triggers = [0, 1], panels = [2, 3], activeClass = ''is-tab-active'',
         animate = True, duration = Some 200, isAnimating = True\<rparr>"
  by (simp add: eval_defs)

lemma untitled_switched_group:
  "tabsGroups untitled_switched ''menu'' =
   Some \<lparr>name = ''menu'', triggers = [0, 1], panels = [2], activeClass = ''is-tab-active'',
         animate = False, duration = Some 300, isAnimating = False\<rparr>"
  by (simp add: eval_defs)

lemma untitled_switched_elems:
  "map (\<lambda>r. classes (elems untitled_switched r)) [0, 1, 2] = [[''is-tab-active''], [], []]"
  "attrs (elems untitled_switched 0) ATTR_trigger = Some ''''"
  by (simp_all add: eval_defs)

lemma check_token_default [simp]: "check_token ''is-tab-active'' = Normal"
  by (simp add: check_token_def ascii_whitespace_def)

lemma gallery_fresh: "tabsGroups (gallery a) g = None"
  by (simp add: gallery_def)


lemma gallery_ready_init: "gallery_ready = snd (initTabsGroup ''gallery'' (gallery False))"
  by (simp add: gallery_ready_def gallery_fresh)




lemma untitled_ready_init: "untitled_ready = snd (initTabsGroup ''menu'' untitled)"
  by (simp add: untitled_ready_def untitled_def)

lemma untitled_ready_group:
  "tabsGroups untitled_ready ''menu'' =
   Some \<lparr>name = ''menu'', triggers = [0, 1], panels = [2], activeClass = ''is-tab-active'',
         animate = False, duration = Some 300, isAnimating = False\<rparr>"
  by (simp add: eval_defs)

lemma untitled_ready_elems:
  "map (\<lambda>r. classes (elems untitled_ready r)) [0, 1, 2] = [[], [], []]"
  "attrs (elems untitled_ready 0) ''aria-selected'' = None"
  "attrs (elems untitled_ready 2) ''aria-hidden'' = None"
  "attrs (elems untitled 0) ATTR_trigger = Some ''''"
  by (simp_all add: eval_defs)

lemma untitled_init_normal: "fst (initTabsGroup ''menu'' untitled) = Normal"
  by (simp add: eval_defs)

lemma gallery_init_normal: "fst (initTabsGroup ''gallery'' (gallery False)) = Normal"
  by (simp add: eval_defs)

lemma gallery_default:
  "(case find (\<lambda>t. hasAttribute (gallery False) t ATTR_default) [0, 1] of
      Some m \<Rightarrow> getAttribute (gallery False) m ATTR_trigger
    | None \<Rightarrow> getAttribute (gallery False) (hd [0, 1]) ATTR_trigger) = Some ''photos''"
  by (simp add: gallery_def hasAttribute_def getAttribute_def)

lemma gallery_ready_aria:
  "map (\<lambda>r. attrs (elems gallery_ready r) ''aria-selected'') [0, 1] = [Some ''true'', Some ''false'']"
  "map (\<lambda>r. attrs (elems gallery_ready r) ''aria-hidden'') [2, 3] = [Some ''false'', Some ''true'']"
  by (simp_all add: eval_defs)




lemma gallery_settled_elems:
  "map (\<lambda>r. classes (elems gallery_settled r)) [0, 1, 2, 3] =
   [[], [''is-tab-active''], [], [''is-tab-active'']]"
  "map (\<lambda>r. attrs (elems gallery_settled r) ATTR_trigger) [0, 1] = [Some ''photos'', Some ''videos'']"
  "map (\<lambda>r. attrs (elems gallery_settled r) ATTR_content) [2, 3] = [Some ''photos'', Some ''videos'']"
  by (simp_all add: gallery_settled_def eval_defs fire_def exitPhaseEnd_def enterPhaseEnd_def)


subsection \<open>What every run keeps\<close>










text \<open>Two pages with the same document and the same static attributes.\<close>

definition same_dom :: "page \<Rightarrow> page \<Rightarrow> bool" where
  "same_dom s s' =
     (doc s' = doc s \<and> (\<forall>x k. static_key k \<longrightarrow> attrs (elems s' x) k = attrs (elems s x) k))"




lemma same_dom_getAttribute:
  "same_dom s s' \<Longrightarrow> static_key k \<Longrightarrow> getAttribute s' x k = getAttribute s x k"
  by (simp add: same_dom_def getAttribute_def)







subsection \<open>The registry and the timers along a run\<close>




lemma preserves_timers_modify [simp]:
  "preserves timers (classList_add r ts)" "preserves timers (classList_remove r ts)"
  "preserves timers (setAttribute r k v)"
  by (simp_all add: preserves_def classList_add_def classList_remove_def setAttribute_def
      split: completion.split)
















subsection \<open>The tab shown after each change\<close>












subsection \<open>Work for one group leaves the others alone\<close>














subsection \<open>The phase of a group after its own events\<close>






subsection \<open>The invariant along a run\<close>















section \<open>The claims\<close>

text \<open>
  C2: while a group's \<open>isAnimating\<close> flag is set, a call of \<open>activateTab\<close> for it
  returns at once: the page, with its registry, pending timers and console, is the one
  before the call, so every later run of the page (and the tab it settles on) is the
  same as if the request had not been made, and nothing is reported.
\<close>

theorem activateTab_dropped_while_animating:
  assumes "tabsGroups s g = Some grp" and "isAnimating grp"
  shows "activateTab g t s = (Normal, s)
       \<and> console (snd (activateTab g t s)) = console s
       \<and> timers (snd (activateTab g t s)) = timers s
       \<and> run evs (step (Activate g t) s) = run evs s
       \<and> getActiveTab (run evs (step (Activate g t) s)) g = getActiveTab (run evs s) g"
  using assms by (simp add: activateTab_def)

theorem activateTab_dropped_while_animating_witness:
  "activateTab ''gallery'' ''photos'' gallery_moving = (Normal, gallery_moving)
   \<and> run [Fire 0, Fire 0] (step (Activate ''gallery'' ''photos'') gallery_moving) =
     run [Fire 0, Fire 0] gallery_moving"
  using activateTab_dropped_while_animating
    [OF gallery_moving_group, of "''photos''" "[Fire 0, Fire 0]"]
  by simp

text \<open>
  C3: instant activation is idempotent. Calling \<open>activateTabInstant\<close> again with the
  same group and target, on the page the first call left, completes the same way and
  leaves that page unchanged: every class list and every attribute of every element
  is as after the first call.
\<close>

theorem activateTabInstant_idempotent:
  "activateTabInstant grp t (snd (activateTabInstant grp t s)) = activateTabInstant grp t s"
proof (cases "check_token (activeClass grp)")
  case Normal
  then show ?thesis
    by (simp add: activateTabInstant_valid instant_el_idem)
next
  case (Throw x)
  then show ?thesis
    by (simp add: activateTabInstant_invalid)
qed

text \<open>
  C4: for a registered group that is not animating, a request for the tab that is
  already active (the first panel carrying the active class is one of the panels
  whose tab identifier is the target) changes nothing: the call returns the page it
  was given.
\<close>

theorem activateTab_same_tab_noop:
  assumes "tabsGroups s g = Some grp" and "\<not> isAnimating grp"
    and "find (\<lambda>p. classList_contains s p (activeClass grp)) (panels grp) = Some currentPanel"
    and "currentPanel \<in> set (filter (\<lambda>p. getAttribute s p ATTR_content = Some t) (panels grp))"
  shows "activateTab g t s = (Normal, s)"
  using assms by (simp add: activateTab_def)

theorem activateTab_same_tab_noop_witness:
  "activateTab ''gallery'' ''photos'' gallery_ready = (Normal, gallery_ready)"
  using activateTab_same_tab_noop [OF gallery_ready_group, of 2 "''photos''"]
    gallery_ready_elems
  by (simp add: classList_contains_def getAttribute_def)

text \<open>
  C7: when \<open>initTabsGroup\<close> finds at least one trigger and one panel, the group it
  stores has its configuration from the first trigger alone: the active class is that
  trigger's class attribute, or "is-tab-active" when the attribute is absent or empty;
  \<open>animate\<close> is the presence of its animate attribute; the duration is \<open>parseInt\<close> of
  its duration attribute, or 300 when the attribute is absent or empty. On any page
  that differs only in these three attributes of other elements, the stored
  configuration is the same.
\<close>

theorem config_from_first_trigger:
  assumes ts: "querySelectorAll s g ATTR_trigger = firstTrigger # rest"
    and ps: "querySelectorAll s g ATTR_content \<noteq> []"
  shows "\<exists>grp. tabsGroups (snd (initTabsGroup g s)) g = Some grp
     \<and> activeClass grp =
         (case attrs (elems s firstTrigger) ATTR_activeClass of
            None \<Rightarrow> ''is-tab-active''
          | Some v \<Rightarrow> if v = [] then ''is-tab-active'' else v)
     \<and> animate grp = (attrs (elems s firstTrigger) ATTR_animate \<noteq> None)
     \<and> duration grp =
         (case attrs (elems s firstTrigger) ATTR_duration of
            None \<Rightarrow> Some 300
          | Some v \<Rightarrow> if v = [] then Some 300 else parseInt v)
     \<and> (\<forall>s'. doc s' = doc s \<and> elems s' firstTrigger = elems s firstTrigger
            \<and> (\<forall>r k. k \<notin> {ATTR_activeClass, ATTR_animate, ATTR_duration}
                  \<longrightarrow> attrs (elems s' r) k = attrs (elems s r) k)
          \<longrightarrow> (\<exists>grp'. tabsGroups (snd (initTabsGroup g s')) g = Some grp'
                \<and> activeClass grp' = activeClass grp
                \<and> animate grp' = animate grp
                \<and> duration grp' = duration grp))"
proof -
  have reg: "tabsGroups (snd (initTabsGroup g s)) g = Some (init_config s g)"
    using ts ps by (simp add: initTabsGroup_registry)
  have cfg: "activeClass (init_config s g) =
         (case attrs (elems s firstTrigger) ATTR_activeClass of
            None \<Rightarrow> ''is-tab-active''
          | Some v \<Rightarrow> if v = [] then ''is-tab-active'' else v)"
       "animate (init_config s g) = (attrs (elems s firstTrigger) ATTR_animate \<noteq> None)"
       "duration (init_config s g) =
         (case attrs (elems s firstTrigger) ATTR_duration of
            None \<Rightarrow> Some 300
          | Some v \<Rightarrow> if v = [] then Some 300 else parseInt v)"
    using ts
    by (simp_all add: init_config_def Let_def truthy_def getAttribute_def hasAttribute_def
        split: option.split)
  have other: "\<exists>grp'. tabsGroups (snd (initTabsGroup g s')) g = Some grp'
                \<and> activeClass grp' = activeClass (init_config s g)
                \<and> animate grp' = animate (init_config s g)
                \<and> duration grp' = duration (init_config s g)"
    if same: "doc s' = doc s" "elems s' firstTrigger = elems s firstTrigger"
      "\<forall>r k. k \<notin> {ATTR_activeClass, ATTR_animate, ATTR_duration}
          \<longrightarrow> attrs (elems s' r) k = attrs (elems s r) k" for s'
  proof -
    have q: "querySelectorAll s' g a = querySelectorAll s g a"
      if "a = ATTR_trigger \<or> a = ATTR_content" for a
      using that same(1,3)
      by (auto simp: querySelectorAll_def getAttribute_def hasAttribute_def intro!: filter_cong)
    have ts': "querySelectorAll s' g ATTR_trigger = firstTrigger # rest"
      using q [of ATTR_trigger] ts by simp
    have ps': "querySelectorAll s' g ATTR_content \<noteq> []"
      using q [of ATTR_content] ps by simp
    have "tabsGroups (snd (initTabsGroup g s')) g = Some (init_config s' g)"
      using ts' ps' by (simp add: initTabsGroup_registry)
    moreover have "activeClass (init_config s' g) = activeClass (init_config s g)"
      "animate (init_config s' g) = animate (init_config s g)"
      "duration (init_config s' g) = duration (init_config s g)"
      using ts ts' same(2)
      by (simp_all add: init_config_def Let_def getAttribute_def hasAttribute_def)
    ultimately show ?thesis by simp
  qed
  from reg cfg other show ?thesis by blast
qed

theorem config_from_first_trigger_witness:
  "\<exists>grp. tabsGroups (snd (initTabsGroup ''gallery'' (gallery True))) ''gallery'' = Some grp
     \<and> activeClass grp = ''is-tab-active'' \<and> animate grp = True \<and> duration grp = Some 200"
proof -
  have ps: "querySelectorAll (gallery True) ''gallery'' ATTR_content \<noteq> []"
    by (simp add: gallery_panels)
  from config_from_first_trigger [OF gallery_triggers ps]
  obtain grp where "tabsGroups (snd (initTabsGroup ''gallery'' (gallery True))) ''gallery'' = Some grp"
    "activeClass grp =
         (case attrs (elems (gallery True) 0) ATTR_activeClass of
            None \<Rightarrow> ''is-tab-active''
          | Some v \<Rightarrow> if v = [] then ''is-tab-active'' else v)"
    "animate grp = (attrs (elems (gallery True) 0) ATTR_animate \<noteq> None)"
    "duration grp =
         (case attrs (elems (gallery True) 0) ATTR_duration of
            None \<Rightarrow> Some 300
          | Some v \<Rightarrow> if v = [] then Some 300 else parseInt v)"
    by blast
  then show ?thesis
    by (simp add: gallery_first_trigger parseInt_200)
qed

text \<open>
  C9, as stated, fails: on the page \<open>untitled\<close>, after the scan and a call
  \<open>switchTab("menu", "")\<close>, the first trigger of group \<open>menu\<close> carries the active
  class and its tab identifier is the empty string, yet \<open>getActiveTab("menu")\<close> is
  \<open>null\<close>.
\<close>

theorem getActiveTab_empty_identifier_counterexample:
  "tabsGroups untitled_switched ''menu'' \<noteq> None
   \<and> classList_contains untitled_switched 0 ''is-tab-active''
   \<and> getAttribute untitled_switched 0 ATTR_trigger = Some ''''
   \<and> getActiveTab untitled_switched ''menu'' = None"
  using untitled_switched_group untitled_switched_elems
  by (simp add: getActiveTab_def classList_contains_def getAttribute_def truthy_def)

text \<open>
  C9, amended: \<open>getActiveTab\<close> is \<open>null\<close> when the group is not registered, when no
  trigger of the group carries the group's active class, and when the first trigger
  (in the group's order) that carries it has an empty tab identifier or none;
  otherwise it is the tab identifier of that first trigger.
\<close>

theorem getActiveTab_first_active_trigger:
  "(tabsGroups s g = None \<longrightarrow> getActiveTab s g = None)
   \<and> (\<forall>grp. tabsGroups s g = Some grp \<longrightarrow>
        ((\<forall>r\<in>set (triggers grp). \<not> classList_contains s r (activeClass grp))
           \<longrightarrow> getActiveTab s g = None)
      \<and> (\<forall>pre r post.
            triggers grp = pre @ r # post
            \<and> (\<forall>x\<in>set pre. \<not> classList_contains s x (activeClass grp))
            \<and> classList_contains s r (activeClass grp)
            \<longrightarrow> getActiveTab s g =
                (case getAttribute s r ATTR_trigger of
                   None \<Rightarrow> None
                 | Some v \<Rightarrow> if v = [] then None else Some v)))"
  by (auto simp: getActiveTab_def find_first find_none truthy_def split: option.split)

theorem getActiveTab_first_active_trigger_witness:
  "getActiveTab gallery_ready ''gallery'' = Some ''photos''"
proof -
  let ?grp = "\<lparr>name = ''gallery'', triggers = [0, 1], panels = [2, 3],
      activeClass = ''is-tab-active'', animate = False, duration = Some 300, isAnimating = False\<rparr>"
  have c: "classList_contains gallery_ready 0 (activeClass ?grp)"
    using gallery_ready_elems by (simp add: classList_contains_def)
  have "triggers ?grp = [] @ 0 # [1]
        \<and> (\<forall>x\<in>set []. \<not> classList_contains gallery_ready x (activeClass ?grp))
        \<and> classList_contains gallery_ready 0 (activeClass ?grp)"
    using c by simp
  with getActiveTab_first_active_trigger [of gallery_ready "''gallery''"] gallery_ready_group
  have "getActiveTab gallery_ready ''gallery'' =
        (case getAttribute gallery_ready 0 ATTR_trigger of
           None \<Rightarrow> None
         | Some v \<Rightarrow> if v = [] then None else Some v)"
    by blast
  then show ?thesis
    using gallery_ready_elems by (simp add: getAttribute_def)
qed






text \<open>
  C5, as stated, fails: on the page \<open>untitled\<close> the first trigger of group \<open>menu\<close>
  has the empty string as its tab identifier and no trigger is marked default;
  \<open>initTabsGroup("menu")\<close> returns normally and registers the group, but activates
  nothing: no trigger carries the active class and no \<open>aria-selected\<close> or
  \<open>aria-hidden\<close> attribute is set.
\<close>

theorem initTabsGroup_empty_default_counterexample:
  "fst (initTabsGroup ''menu'' untitled) = Normal
   \<and> tabsGroups (snd (initTabsGroup ''menu'' untitled)) ''menu'' \<noteq> None
   \<and> getAttribute untitled 0 ATTR_trigger = Some ''''
   \<and> \<not> classList_contains (snd (initTabsGroup ''menu'' untitled)) 0 ''is-tab-active''
   \<and> \<not> classList_contains (snd (initTabsGroup ''menu'' untitled)) 1 ''is-tab-active''
   \<and> getAttribute (snd (initTabsGroup ''menu'' untitled)) 0 ''aria-selected'' = None
   \<and> getAttribute (snd (initTabsGroup ''menu'' untitled)) 2 ''aria-hidden'' = None"
  using untitled_ready_group untitled_ready_elems untitled_init_normal
  by (simp add: untitled_ready_init classList_contains_def getAttribute_def)

text \<open>
  C5, amended: when \<open>initTabsGroup\<close> finds triggers \<open>T\<close> and panels \<open>P\<close> with no
  element in both, returns normally, and the default tab identifier \<open>d\<close> (the tab
  identifier of the first trigger carrying the default-marker attribute, or of the
  first trigger if none is marked) is not empty, then the group is registered with
  these triggers and panels, some trigger has the identifier \<open>d\<close>, a trigger carries
  the active class exactly when its identifier is \<open>d\<close> and has \<open>aria-selected\<close>
  "true" then and "false" otherwise, and a panel carries the active class exactly
  when its identifier is \<open>d\<close> and has \<open>aria-hidden\<close> "false" then and "true"
  otherwise.
\<close>

theorem initTabsGroup_activates_default:
  assumes T: "querySelectorAll s g ATTR_trigger = T" "T \<noteq> []"
    and P: "querySelectorAll s g ATTR_content = P" "P \<noteq> []"
    and ret: "initTabsGroup g s = (Normal, s')"
    and d: "(case find (\<lambda>t. hasAttribute s t ATTR_default) T of
               Some m \<Rightarrow> getAttribute s m ATTR_trigger
             | None \<Rightarrow> getAttribute s (hd T) ATTR_trigger) = Some d" "d \<noteq> []"
    and disj: "set T \<inter> set P = {}"
  shows "\<exists>grp. tabsGroups s' g = Some grp \<and> triggers grp = T \<and> panels grp = P
     \<and> (\<exists>r\<in>set T. getAttribute s' r ATTR_trigger = Some d)
     \<and> (\<forall>r\<in>set T.
          (classList_contains s' r (activeClass grp) \<longleftrightarrow> getAttribute s' r ATTR_trigger = Some d)
        \<and> getAttribute s' r ''aria-selected'' =
            Some (if getAttribute s' r ATTR_trigger = Some d then ''true'' else ''false''))
     \<and> (\<forall>p\<in>set P.
          (classList_contains s' p (activeClass grp) \<longleftrightarrow> getAttribute s' p ATTR_content = Some d)
        \<and> getAttribute s' p ''aria-hidden'' =
            Some (if getAttribute s' p ATTR_content = Some d then ''false'' else ''true''))"
proof -
  let ?cfg = "init_config s g"
  let ?c = "activeClass ?cfg"
  let ?s0 = "s\<lparr>tabsGroups := (tabsGroups s)(g \<mapsto> ?cfg)\<rparr>"
  have ne: "querySelectorAll s g ATTR_trigger \<noteq> []" "querySelectorAll s g ATTR_content \<noteq> []"
    using T P by simp_all
  obtain sa where a: "wire_triggers g T ?s0 = (Normal, sa)"
    using wire_triggers_normal [of g T ?s0] by (cases "wire_triggers g T ?s0") simp
  obtain sb where b: "wire_panels P sa = (Normal, sb)"
    using wire_panels_normal [of P sa] by (cases "wire_panels P sa") simp
  have st: "attrs (elems sb x) k = attrs (elems s x) k" if "static_key k" for x k
    using wire_triggers_static [OF that, of g T ?s0 x] wire_panels_static [OF that, of P sa x] a b
    by simp
  have dt: "default_tab sb T = Some d"
    using default_tab_static [of sb s T] st d(1) by (simp add: default_tab_def)
  have fin: "activateTabInstant ?cfg d sb = (Normal, s')"
    using ret dt d(2) T P
    by (auto simp: initTabsGroup_parts [OF ne] a b apply_default_def truthy_def
        split: prod.splits completion.splits)
  have ok: "check_token ?c = Normal"
  proof (cases "check_token ?c")
    case (Throw x)
    with fin T show ?thesis by (simp add: activateTabInstant_invalid)
  qed simp
  have s': "s' = sb\<lparr>elems := \<lambda>x. instant_el ?cfg d x (elems sb x)\<rparr>"
    using fin by (simp add: activateTabInstant_valid [OF ok])
  have reg: "tabsGroups s' g = Some ?cfg"
    using initTabsGroup_registry [OF ne] ret by simp
  have ex: "\<exists>r\<in>set T. getAttribute s' r ATTR_trigger = Some d"
  proof -
    from default_tab_trigger [OF T(2), of sb] dt
    obtain r where "r \<in> set T" "getAttribute sb r ATTR_trigger = Some d" by auto
    then show ?thesis
      by (auto simp: s' getAttribute_def instant_el_def Let_def el_defs intro!: bexI [of _ r])
  qed
  have trig: "(classList_contains s' r ?c \<longleftrightarrow> getAttribute s' r ATTR_trigger = Some d)
        \<and> getAttribute s' r ''aria-selected'' =
            Some (if getAttribute s' r ATTR_trigger = Some d then ''true'' else ''false'')"
    if "r \<in> set T" for r
    using that disj ok T P
    by (auto simp: s' classList_contains_def getAttribute_def instant_el_def Let_def el_defs
        token_add_def)
  have pan: "(classList_contains s' p ?c \<longleftrightarrow> getAttribute s' p ATTR_content = Some d)
        \<and> getAttribute s' p ''aria-hidden'' =
            Some (if getAttribute s' p ATTR_content = Some d then ''false'' else ''true'')"
    if "p \<in> set P" for p
    using that disj ok T P
    by (auto simp: s' classList_contains_def getAttribute_def instant_el_def Let_def el_defs
        token_add_def)
  from reg ex trig pan T P show ?thesis by simp
qed

theorem initTabsGroup_activates_default_witness:
  "\<exists>grp. tabsGroups gallery_ready ''gallery'' = Some grp
     \<and> triggers grp = [0, 1] \<and> panels grp = [2, 3]
     \<and> classList_contains gallery_ready 0 (activeClass grp)
     \<and> \<not> classList_contains gallery_ready 1 (activeClass grp)
     \<and> getAttribute gallery_ready 1 ''aria-selected'' = Some ''false''
     \<and> getAttribute gallery_ready 3 ''aria-hidden'' = Some ''true''"
proof -
  have ret: "initTabsGroup ''gallery'' (gallery False) = (Normal, gallery_ready)"
    using gallery_init_normal gallery_ready_init by (simp add: prod_eq_iff)
  have ids: "getAttribute gallery_ready 0 ATTR_trigger = Some ''photos''"
    "getAttribute gallery_ready 1 ATTR_trigger = Some ''videos''"
    "getAttribute gallery_ready 3 ATTR_content = Some ''videos''"
    using gallery_ready_elems by (simp_all add: getAttribute_def)
  from initTabsGroup_activates_default
    [OF gallery_triggers _ gallery_panels _ ret gallery_default]
  obtain grp where "tabsGroups gallery_ready ''gallery'' = Some grp"
    "triggers grp = [0, 1]" "panels grp = [2, 3]"
    "\<forall>r\<in>set [0, 1].
       (classList_contains gallery_ready r (activeClass grp)
          \<longleftrightarrow> getAttribute gallery_ready r ATTR_trigger = Some ''photos'')
     \<and> getAttribute gallery_ready r ''aria-selected'' =
         Some (if getAttribute gallery_ready r ATTR_trigger = Some ''photos''
               then ''true'' else ''false'')"
    "\<forall>p\<in>set [2, 3].
       (classList_contains gallery_ready p (activeClass grp)
          \<longleftrightarrow> getAttribute gallery_ready p ATTR_content = Some ''photos'')
     \<and> getAttribute gallery_ready p ''aria-hidden'' =
         Some (if getAttribute gallery_ready p ATTR_content = Some ''photos''
               then ''false'' else ''true'')"
    by auto
  then show ?thesis
    using ids by auto
qed






end
